theory Spec2Isabelle
  imports Complex_Main
begin

section \<open>Numbers\<close>

text \<open>
  The calculator works on JavaScript numbers. They are modelled as \<^typ>\<open>real\<close>: every
  finite double is read as the exact value it denotes and the arithmetic is exact.
  \<open>NaN\<close>, the infinities and rounding are outside the model. Every division of the
  source is either guarded by a test on the divisor or divides by a constant that is
  not zero (60, or 1 in a remainder), so no division by zero is hidden by HOL's total
  division.
\<close>

type_synonym number = real

section \<open>calculator.ts\<close>

record PaceData =
  pace :: number
  speed :: number
  distance :: number
  time :: number

text \<open>\<open>CalculatedField = 'pace-speed' | 'distance' | 'time'\<close>\<close>

datatype CalculatedField = CF_pace_speed | CF_distance | CF_time

text \<open>The type of \<open>changedField\<close>: \<open>'pace' | 'speed' | 'distance' | 'time'\<close>\<close>

datatype ChangedField = Ch_pace | Ch_speed | Ch_distance | Ch_time

definition paceToSpeed :: "number \<Rightarrow> number" where
  "paceToSpeed p = (if p \<le> 0 then 0 else 60 / p)"

definition speedToPace :: "number \<Rightarrow> number" where
  "speedToPace s = (if s \<le> 0 then 0 else 60 / s)"

definition calculateTime :: "number \<Rightarrow> number \<Rightarrow> number" where
  "calculateTime p d = p * d"

definition calculateDistance :: "number \<Rightarrow> number \<Rightarrow> number" where
  "calculateDistance p t = (if p \<le> 0 then 0 else t / p)"

definition calculatePaceFromTimeDistance :: "number \<Rightarrow> number \<Rightarrow> number" where
  "calculatePaceFromTimeDistance t d = (if d \<le> 0 then 0 else t / d)"

text \<open>
  \<open>recalculate\<close> copies its argument (\<open>{ ...data }\<close>), runs the pace/speed sync on the
  copy and then the branch of the \<open>switch\<close>. The three stages are the three bindings of
  \<open>result\<close> below; the sync reads \<open>data\<close>, the switch reads \<open>result\<close>, as the source does.
\<close>

definition recalculate :: "PaceData \<Rightarrow> CalculatedField \<Rightarrow> ChangedField \<Rightarrow> PaceData" where
  "recalculate data calculatedField changedField =
     (let result = data;
          result =
            (if changedField = Ch_pace then result\<lparr>speed := paceToSpeed (pace data)\<rparr>
             else if changedField = Ch_speed then result\<lparr>pace := speedToPace (speed data)\<rparr>
             else result)
      in case calculatedField of
           CF_pace_speed \<Rightarrow>
             if distance result > 0 \<and> time result > 0 then
               (let result = result\<lparr>pace :=
                      calculatePaceFromTimeDistance (time result) (distance result)\<rparr>
                in result\<lparr>speed := paceToSpeed (pace result)\<rparr>)
             else result
         | CF_distance \<Rightarrow>
             if pace result > 0 \<and> time result > 0 then
               result\<lparr>distance := calculateDistance (pace result) (time result)\<rparr>
             else result
         | CF_time \<Rightarrow>
             if pace result > 0 \<and> distance result > 0 then
               result\<lparr>time := calculateTime (pace result) (distance result)\<rparr>
             else result)"

section \<open>Strings and the built-ins the source calls\<close>

text \<open>
  A JavaScript string is modelled as a \<^typ>\<open>string\<close>, one \<^typ>\<open>char\<close> for each code
  unit below 256. Code units beyond that range are not represented; the only place
  where they would matter is the exotic white space that \<open>parseInt\<close> skips.
\<close>

definition isDigit :: "char \<Rightarrow> bool" where
  "isDigit c = (c \<in> set ''0123456789'')"

text \<open>\<open>s.split(sep)\<close> for a separator of one character; the empty string gives \<open>['']\<close>.\<close>

fun split_on :: "char \<Rightarrow> string \<Rightarrow> string list" where
  "split_on sep [] = [[]]"
| "split_on sep (c # cs) =
     (if c = sep then [] # split_on sep cs
      else (case split_on sep cs of
              [] \<Rightarrow> [[c]]
            | p # ps \<Rightarrow> (c # p) # ps))"

text \<open>\<open>s.padStart(n, c)\<close> with a filler of one character.\<close>

definition padStart :: "nat \<Rightarrow> char \<Rightarrow> string \<Rightarrow> string" where
  "padStart n c s = replicate (n - length s) c @ s"

text \<open>\<open>s.substring(a, b)\<close> for \<open>a \<le> b\<close>, which is how the source calls it; both ends are
  clamped to the length, as \<^const>\<open>take\<close> and \<^const>\<open>drop\<close> do.\<close>

definition substring :: "nat \<Rightarrow> nat \<Rightarrow> string \<Rightarrow> string" where
  "substring a b s = take (b - a) (drop a s)"

text \<open>\<open>s.replace(c, t)\<close> with a string pattern of one character: only the first
  occurrence is replaced.\<close>

fun replace_first :: "char \<Rightarrow> string \<Rightarrow> string \<Rightarrow> string" where
  "replace_first c t [] = []"
| "replace_first c t (x # xs) = (if x = c then t @ xs else x # replace_first c t xs)"

text \<open>
  \<open>parseInt(s)\<close> without a radix: leading white space is skipped, one sign is read, a
  prefix \<open>0x\<close> or \<open>0X\<close> selects base 16, and the longest run of digits of the base is
  the value, read as the exact integer. No digit at all gives \<open>NaN\<close>, which is
  \<^const>\<open>None\<close> here. Whatever follows the digits is ignored.
\<close>

definition isWhiteSpace :: "char \<Rightarrow> bool" where
  "isWhiteSpace c =
     (c \<in> {CHR 0x09, CHR 0x0A, CHR 0x0B, CHR 0x0C, CHR 0x0D, CHR 0x20, CHR 0xA0})"

fun index_of :: "char \<Rightarrow> string \<Rightarrow> nat option" where
  "index_of c [] = None"
| "index_of c (x # xs) =
     (if x = c then Some 0 else map_option Suc (index_of c xs))"

definition digitValue :: "nat \<Rightarrow> char \<Rightarrow> nat option" where
  "digitValue radix c =
     (case index_of c ''0123456789abcdef'' of
        Some v \<Rightarrow> if v < radix then Some v else None
      | None \<Rightarrow>
          (case index_of c ''ABCDEF'' of
             Some v \<Rightarrow> if v + 10 < radix then Some (v + 10) else None
           | None \<Rightarrow> None))"

text \<open>The value of the longest prefix of digits: \<open>acc\<close> is the value read so far, \<open>None\<close>
  as long as no digit has been read.\<close>

fun readDigits :: "nat \<Rightarrow> nat option \<Rightarrow> string \<Rightarrow> nat option" where
  "readDigits radix acc [] = acc"
| "readDigits radix acc (c # cs) =
     (case digitValue radix c of
        None \<Rightarrow> acc
      | Some v \<Rightarrow>
          readDigits radix (Some ((case acc of None \<Rightarrow> 0 | Some a \<Rightarrow> a) * radix + v)) cs)"

definition parseInt :: "string \<Rightarrow> int option" where
  "parseInt str =
     (let s = dropWhile isWhiteSpace str;
          negative = (s \<noteq> [] \<and> hd s = CHR ''-'');
          s = (if s \<noteq> [] \<and> (hd s = CHR ''+'' \<or> hd s = CHR ''-'') then tl s else s);
          hex = (take 2 s = ''0x'' \<or> take 2 s = ''0X'');
          digits = (if hex then readDigits 16 None (drop 2 s) else readDigits 10 None s)
      in case digits of
           None \<Rightarrow> None
         | Some n \<Rightarrow> Some (if negative then - int n else int n))"

text \<open>\<open>Math.floor\<close> and \<open>Math.round\<close> (a tie goes up), with the integer they return.\<close>

definition Math_floor :: "number \<Rightarrow> int" where
  "Math_floor x = \<lfloor>x\<rfloor>"

definition Math_round :: "number \<Rightarrow> int" where
  "Math_round x = \<lfloor>x + 1 / 2\<rfloor>"

text \<open>The remainder operator \<open>a % b\<close> on numbers: the quotient is truncated towards
  zero, so the result has the sign of \<open>a\<close>. The source only divides by 60 and by 1.\<close>

definition js_rem :: "number \<Rightarrow> number \<Rightarrow> number" where
  "js_rem a b =
     a - b * of_int (if a / b < 0 then \<lceil>a / b\<rceil> else \<lfloor>a / b\<rfloor>)"

text \<open>\<open>n.toString()\<close> for a number that is an integer: decimal digits, a minus sign
  for a negative one.\<close>

fun natToString :: "nat \<Rightarrow> string" where
  "natToString n =
     (if n < 10 then [''0123456789'' ! n]
      else natToString (n div 10) @ [''0123456789'' ! (n mod 10)])"

declare natToString.simps [simp del]

definition toString :: "int \<Rightarrow> string" where
  "toString i = (if i < 0 then CHR ''-'' # natToString (nat (- i)) else natToString (nat i))"

section \<open>calculator.ts: formatting and parsing\<close>

definition formatPace :: "number \<Rightarrow> string" where
  "formatPace minutes =
     (let wholeMinutes = Math_floor minutes;
          seconds = Math_round ((minutes - of_int wholeMinutes) * 60)
      in padStart 2 CHR ''0'' (toString wholeMinutes) @ '':''
           @ padStart 2 CHR ''0'' (toString seconds))"

definition parsePace :: "string \<Rightarrow> number" where
  "parsePace paceString =
     (let parts = split_on CHR '':'' paceString
      in if length parts \<noteq> 2 then 0
         else (case (parseInt (parts ! 0), parseInt (parts ! 1)) of
                 (Some minutes, Some seconds) \<Rightarrow>
                   if seconds \<ge> 60 \<or> seconds < 0 then 0
                   else of_int minutes + of_int seconds / 60
               | _ \<Rightarrow> 0))"

definition formatTime :: "number \<Rightarrow> string" where
  "formatTime minutes =
     (let hours = Math_floor (minutes / 60);
          mins = Math_floor (js_rem minutes 60);
          secs = Math_round (js_rem minutes 1 * 60)
      in padStart 2 CHR ''0'' (toString hours) @ '':''
           @ padStart 2 CHR ''0'' (toString mins) @ '':''
           @ padStart 2 CHR ''0'' (toString secs))"

definition parseTime :: "string \<Rightarrow> number" where
  "parseTime timeString =
     (let parts = split_on CHR '':'' timeString
      in if length parts = 2 then
           (case (parseInt (parts ! 0), parseInt (parts ! 1)) of
              (Some minutes, Some seconds) \<Rightarrow> of_int minutes + of_int seconds / 60
            | _ \<Rightarrow> 0)
         else if length parts = 3 then
           (case (parseInt (parts ! 0), parseInt (parts ! 1), parseInt (parts ! 2)) of
              (Some hours, Some minutes, Some seconds) \<Rightarrow>
                of_int hours * 60 + of_int minutes + of_int seconds / 60
            | _ \<Rightarrow> 0)
         else 0)"

section \<open>inputHandler.ts\<close>

text \<open>
  The text field as the two controllers use it: its content and its selection. The
  caret is the selection with both ends equal.
\<close>

record HTMLInputElement =
  input_value :: string
  selectionStart :: nat
  selectionEnd :: nat

text \<open>
  Assigning \<open>input.value\<close>: when the content changes, the browser moves the caret to
  the end of the new content. \<open>setSelectionRange\<close> clamps both ends to the length of the
  content.
\<close>

definition set_value :: "string \<Rightarrow> HTMLInputElement \<Rightarrow> HTMLInputElement" where
  "set_value v el =
     (if v \<noteq> input_value el
      then el\<lparr>input_value := v, selectionStart := length v, selectionEnd := length v\<rparr>
      else el)"

definition setSelectionRange :: "nat \<Rightarrow> nat \<Rightarrow> HTMLInputElement \<Rightarrow> HTMLInputElement" where
  "setSelectionRange a b el =
     (let n = length (input_value el); e = min b n
      in el\<lparr>selectionStart := min (min a n) e, selectionEnd := e\<rparr>)"

subsection \<open>NumericInput\<close>

text \<open>
  \<open>NumericInput.handleInput\<close>, the listener of the field's \<open>input\<close> event.
  \<open>maxDecimals\<close> is the number of decimals the controller was built with (2 for the
  speed and the distance field).
\<close>

definition NumericInput_handleInput :: "nat \<Rightarrow> HTMLInputElement \<Rightarrow> HTMLInputElement" where
  "NumericInput_handleInput maxDecimals target =
     (let val = input_value target;
          cursorPos = selectionStart target;
          val = replace_first CHR '','' ''.'' val;
          cleanValue = filter (\<lambda>c. isDigit c \<or> c = CHR ''.'') val;
          parts = split_on CHR ''.'' cleanValue;
          val = (if length parts > 2 then parts ! 0 @ ''.'' @ concat (drop 1 parts)
                 else cleanValue);
          val = (if length parts = 2 \<and> length (parts ! 1) > maxDecimals
                 then parts ! 0 @ ''.'' @ take maxDecimals (parts ! 1)
                 else val)
      in if input_value target \<noteq> val
         then setSelectionRange (min cursorPos (length val)) (min cursorPos (length val))
                (set_value val target)
         else target)"

text \<open>The fractional part of a content: what follows its first period.\<close>

definition fraction :: "string \<Rightarrow> string" where
  "fraction v = drop 1 (dropWhile (\<lambda>c. c \<noteq> CHR ''.'') v)"

subsection \<open>SegmentedTimeInput\<close>

text \<open>\<open>isTime\<close> selects the mask: \<open>HH:MM:SS\<close> when it is set, \<open>MM:SS\<close> otherwise.\<close>

definition formatNumbers :: "bool \<Rightarrow> string \<Rightarrow> string" where
  "formatNumbers isTime numbers =
     (if isTime then
        (let numbers = padStart 6 CHR ''0'' numbers
         in substring 0 2 numbers @ '':'' @ substring 2 4 numbers @ '':''
              @ substring 4 6 numbers)
      else
        (let numbers = padStart 4 CHR ''0'' numbers
         in substring 0 2 numbers @ '':'' @ substring 2 4 numbers))"

definition formatValue :: "bool \<Rightarrow> string \<Rightarrow> string" where
  "formatValue isTime v = formatNumbers isTime (filter isDigit v)"

definition getDigitPosition :: "HTMLInputElement \<Rightarrow> nat \<Rightarrow> nat" where
  "getDigitPosition el cursorPos =
     length (filter isDigit (substring 0 cursorPos (input_value el)))"

definition getFormattedPosition :: "bool \<Rightarrow> nat \<Rightarrow> nat" where
  "getFormattedPosition isTime digitPos =
     (if isTime then
        (if digitPos \<le> 2 then digitPos
         else if digitPos \<le> 4 then digitPos + 1
         else digitPos + 2)
      else
        (if digitPos \<le> 2 then digitPos else digitPos + 1))"

text \<open>\<open>SegmentedTimeInput.handleInput\<close>, the controller's own listener of the \<open>input\<close>
  event.\<close>

definition SegmentedTimeInput_handleInput :: "bool \<Rightarrow> HTMLInputElement \<Rightarrow> HTMLInputElement" where
  "SegmentedTimeInput_handleInput isTime el =
     (let val = input_value el;
          formatted = formatValue isTime val
      in if formatted \<noteq> val then set_value formatted el else el)"

text \<open>
  \<open>dispatchEvent(new Event('input'))\<close> runs the listeners of the field at once. The
  controller's own listener is \<open>handleInput\<close>; the listeners of the page read the
  field and are not part of the controller.
\<close>

definition dispatchInputEvent :: "bool \<Rightarrow> HTMLInputElement \<Rightarrow> HTMLInputElement" where
  "dispatchInputEvent isTime el = SegmentedTimeInput_handleInput isTime el"

definition handleDigitInput :: "bool \<Rightarrow> string \<Rightarrow> HTMLInputElement \<Rightarrow> HTMLInputElement" where
  "handleDigitInput isTime digit el =
     (let currentValue = input_value el;
          cursorPos = selectionStart el
      in if selectionStart el \<noteq> selectionEnd el then
           (let formatted = formatNumbers isTime digit;
                el = set_value formatted el;
                el = setSelectionRange 1 1 el
            in dispatchInputEvent isTime el)
         else
           (let digitPosition = getDigitPosition el cursorPos;
                numbersOnly = filter isDigit currentValue;
                newNumbers = substring 0 digitPosition numbersOnly @ digit
                               @ drop (digitPosition + 1) numbersOnly;
                formatted = formatNumbers isTime newNumbers;
                el = set_value formatted el;
                nextDigitPos = min (digitPosition + 1) (if isTime then 6 else 4);
                newCursorPos = getFormattedPosition isTime nextDigitPos;
                el = setSelectionRange newCursorPos newCursorPos el
            in dispatchInputEvent isTime el))"

section \<open>Pace and speed conversion\<close>

text \<open>
  Claim C7. \<open>paceToSpeed\<close> returns \<open>60 / pace\<close> for a positive pace and \<open>0\<close> for every
  other pace; \<open>speedToPace\<close> is the same function of the speed. Both are total: no input
  makes them fail. On the inputs of the test suite: \<open>paceToSpeed 5 = 12\<close>,
  \<open>paceToSpeed 0 = 0\<close>, \<open>paceToSpeed (-1) = 0\<close>.
\<close>

theorem paceToSpeed_speedToPace_spec:
  "paceToSpeed p = (if p > 0 then 60 / p else 0)
   \<and> speedToPace s = (if s > 0 then 60 / s else 0)
   \<and> paceToSpeed 5 = 12 \<and> paceToSpeed 0 = 0 \<and> paceToSpeed (- 1) = 0"
  by (simp add: paceToSpeed_def speedToPace_def)

theorem paceToSpeed_speedToPace_spec_witness:
  "paceToSpeed 4 = 15 \<and> speedToPace 10 = 6 \<and> speedToPace (- 1) = 0"
  using paceToSpeed_speedToPace_spec [of 4 10] paceToSpeed_speedToPace_spec [of 4 "- 1"]
  by simp

section \<open>Recalculation\<close>

text \<open>
  Claim C1. With the selector \<open>'pace-speed'\<close>, a positive distance and a positive time,
  whatever field was edited, \<open>recalculate\<close> returns the pace \<open>time / distance\<close>, the speed
  \<open>paceToSpeed\<close> of that pace, which is \<open>60 / (time / distance)\<close>, and the distance and
  the time it was given. On the tuple of the test suite, \<open>{pace: 5, speed: 12,
  distance: 8, time: 50}\<close> edited at the distance, the result is pace \<open>6.25\<close>, speed
  \<open>9.6\<close>, distance \<open>8\<close>, time \<open>50\<close>.
\<close>

theorem recalculate_pace_speed:
  "(distance d > 0 \<and> time d > 0 \<longrightarrow>
      pace (recalculate d CF_pace_speed f) = time d / distance d
      \<and> speed (recalculate d CF_pace_speed f) = paceToSpeed (time d / distance d)
      \<and> speed (recalculate d CF_pace_speed f) = 60 / (time d / distance d)
      \<and> distance (recalculate d CF_pace_speed f) = distance d
      \<and> time (recalculate d CF_pace_speed f) = time d)
   \<and> recalculate \<lparr>pace = 5, speed = 12, distance = 8, time = 50\<rparr> CF_pace_speed Ch_distance
       = \<lparr>pace = 6.25, speed = 9.6, distance = 8, time = 50\<rparr>"
  by (cases f)
     (auto simp add: recalculate_def Let_def calculatePaceFromTimeDistance_def paceToSpeed_def
        divide_le_0_iff)

theorem recalculate_pace_speed_witness:
  "(0::real) < 10 \<and> (0::real) < 60
   \<and> recalculate \<lparr>pace = 5, speed = 12, distance = 10, time = 60\<rparr> CF_pace_speed Ch_time
       = \<lparr>pace = 6, speed = 10, distance = 10, time = 60\<rparr>"
  using recalculate_pace_speed
    [where d = "\<lparr>pace = 5, speed = 12, distance = 10, time = 60\<rparr>" and f = Ch_time]
  by simp

text \<open>
  Claim C2. \<open>recalculate\<close> is idempotent: for every tuple, every selector and every
  edited field, running it again on its own result, with the same selector and the same
  edited field, changes nothing. It has no failing path, and a branch whose guard fails
  (a zero or negative divisor, or a zero or negative other operand) is a no-op: the
  result is the tuple as the pace/speed sync left it, \<open>r\<close> below, and so the input
  tuple itself when the edited field is the distance or the time.
\<close>

theorem recalculate_idempotent:
  "recalculate (recalculate d s f) s f = recalculate d s f
   \<and> (let r = (if f = Ch_pace then d\<lparr>speed := paceToSpeed (pace d)\<rparr>
                else if f = Ch_speed then d\<lparr>pace := speedToPace (speed d)\<rparr>
                else d)
      in (\<not> (distance r > 0 \<and> time r > 0) \<longrightarrow> recalculate d CF_pace_speed f = r)
         \<and> (\<not> (pace r > 0 \<and> time r > 0) \<longrightarrow> recalculate d CF_distance f = r)
         \<and> (\<not> (pace r > 0 \<and> distance r > 0) \<longrightarrow> recalculate d CF_time f = r))
   \<and> (f \<in> {Ch_distance, Ch_time} \<longrightarrow>
        (\<not> (distance d > 0 \<and> time d > 0) \<longrightarrow> recalculate d CF_pace_speed f = d)
        \<and> (\<not> (pace d > 0 \<and> time d > 0) \<longrightarrow> recalculate d CF_distance f = d)
        \<and> (\<not> (pace d > 0 \<and> distance d > 0) \<longrightarrow> recalculate d CF_time f = d))"
proof -
  have idem: "recalculate (recalculate d s f) s f = recalculate d s f"
    by (cases s; cases f)
       (auto simp add: recalculate_def Let_def calculatePaceFromTimeDistance_def paceToSpeed_def
          speedToPace_def calculateDistance_def calculateTime_def divide_le_0_iff)
  have noop: "(let r = (if f = Ch_pace then d\<lparr>speed := paceToSpeed (pace d)\<rparr>
                else if f = Ch_speed then d\<lparr>pace := speedToPace (speed d)\<rparr>
                else d)
      in (\<not> (distance r > 0 \<and> time r > 0) \<longrightarrow> recalculate d CF_pace_speed f = r)
         \<and> (\<not> (pace r > 0 \<and> time r > 0) \<longrightarrow> recalculate d CF_distance f = r)
         \<and> (\<not> (pace r > 0 \<and> distance r > 0) \<longrightarrow> recalculate d CF_time f = r))"
    by (cases f) (simp_all add: recalculate_def Let_def)
  have plain: "f \<in> {Ch_distance, Ch_time} \<longrightarrow>
        (\<not> (distance d > 0 \<and> time d > 0) \<longrightarrow> recalculate d CF_pace_speed f = d)
        \<and> (\<not> (pace d > 0 \<and> time d > 0) \<longrightarrow> recalculate d CF_distance f = d)
        \<and> (\<not> (pace d > 0 \<and> distance d > 0) \<longrightarrow> recalculate d CF_time f = d)"
    by (cases f) (simp_all add: recalculate_def Let_def)
  from idem noop plain show ?thesis by blast
qed

theorem recalculate_idempotent_witness:
  "recalculate \<lparr>pace = 0, speed = 0, distance = 10, time = 50\<rparr> CF_distance Ch_time
     = \<lparr>pace = 0, speed = 0, distance = 10, time = 50\<rparr>
   \<and> recalculate \<lparr>pace = 5, speed = 12, distance = 0, time = 50\<rparr> CF_pace_speed Ch_time
     = \<lparr>pace = 5, speed = 12, distance = 0, time = 50\<rparr>
   \<and> recalculate \<lparr>pace = - 1, speed = 12, distance = 10, time = 50\<rparr> CF_time Ch_distance
     = \<lparr>pace = - 1, speed = 12, distance = 10, time = 50\<rparr>
   \<and> recalculate \<lparr>pace = - 1, speed = 12, distance = 10, time = 50\<rparr> CF_time Ch_pace
     = \<lparr>pace = - 1, speed = 0, distance = 10, time = 50\<rparr>
   \<and> recalculate \<lparr>pace = 5, speed = 0, distance = 10, time = 50\<rparr> CF_distance Ch_speed
     = \<lparr>pace = 0, speed = 0, distance = 10, time = 50\<rparr>"
  using
    recalculate_idempotent
      [where d = "\<lparr>pace = 0, speed = 0, distance = 10, time = 50\<rparr>" and f = Ch_time]
    recalculate_idempotent
      [where d = "\<lparr>pace = 5, speed = 12, distance = 0, time = 50\<rparr>" and f = Ch_time]
    recalculate_idempotent
      [where d = "\<lparr>pace = - 1, speed = 12, distance = 10, time = 50\<rparr>" and f = Ch_distance]
    recalculate_idempotent
      [where d = "\<lparr>pace = - 1, speed = 12, distance = 10, time = 50\<rparr>" and f = Ch_pace]
    recalculate_idempotent
      [where d = "\<lparr>pace = 5, speed = 0, distance = 10, time = 50\<rparr>" and f = Ch_speed]
  by (simp add: paceToSpeed_def speedToPace_def Let_def)

text \<open>
  Claim C3, as stated: for every selector, editing the pace leaves the speed at
  \<open>paceToSpeed\<close> of the input pace in the result. This fails for the selector
  \<open>'pace-speed'\<close> with a positive distance and time: the sync runs first, and the
  branch of the selector then overwrites both pace and speed from time and distance.
\<close>

theorem recalculate_sync_counterexample:
  "speed (recalculate \<lparr>pace = 6, speed = 12, distance = 8, time = 50\<rparr> CF_pace_speed Ch_pace)
     = 9.6
   \<and> paceToSpeed (pace \<lparr>pace = 6, speed = 12, distance = 8, time = 50\<rparr>) = 10
   \<and> speed (recalculate \<lparr>pace = 6, speed = 12, distance = 8, time = 50\<rparr> CF_pace_speed Ch_pace)
     \<noteq> paceToSpeed (pace \<lparr>pace = 6, speed = 12, distance = 8, time = 50\<rparr>)"
  by (simp add: recalculate_def calculatePaceFromTimeDistance_def paceToSpeed_def)

text \<open>
  Claim C3, amended. When the selector is \<open>'distance'\<close> or \<open>'time'\<close>, or it is
  \<open>'pace-speed'\<close> and the distance or the time is not positive, the result of editing
  the pace has the speed \<open>paceToSpeed\<close> of the input pace, and the result of editing the
  speed has the pace \<open>speedToPace\<close> of the input speed.
\<close>

theorem recalculate_sync:
  "(s \<noteq> CF_pace_speed \<or> \<not> (distance d > 0 \<and> time d > 0)) \<longrightarrow>
     speed (recalculate d s Ch_pace) = paceToSpeed (pace d)
     \<and> pace (recalculate d s Ch_speed) = speedToPace (speed d)"
  by (cases s) (simp_all add: recalculate_def Let_def)

theorem recalculate_sync_witness:
  "CF_distance \<noteq> CF_pace_speed
   \<and> speed (recalculate \<lparr>pace = 6, speed = 12, distance = 10, time = 50\<rparr> CF_distance Ch_pace) = 10
   \<and> pace (recalculate \<lparr>pace = 6, speed = 12, distance = 10, time = 50\<rparr> CF_distance Ch_speed) = 5
   \<and> \<not> (distance \<lparr>pace = 6, speed = 12, distance = 0, time = 50\<rparr> > 0
          \<and> time \<lparr>pace = 6, speed = 12, distance = 0, time = 50\<rparr> > 0)
   \<and> speed (recalculate \<lparr>pace = 6, speed = 12, distance = 0, time = 50\<rparr> CF_pace_speed Ch_pace) = 10"
  using recalculate_sync
    [where s = CF_distance and d = "\<lparr>pace = 6, speed = 12, distance = 10, time = 50\<rparr>"]
    recalculate_sync
    [where s = CF_pace_speed and d = "\<lparr>pace = 6, speed = 12, distance = 0, time = 50\<rparr>"]
  by (simp add: paceToSpeed_def speedToPace_def)

text \<open>
  Claim C4. \<open>recalculate\<close> changes only the fields its steps touch: the time of the
  result is the input time unless the selector is \<open>'time'\<close>; the distance is the input
  distance unless the selector is \<open>'distance'\<close>; pace and speed are the input pace and
  speed unless the edited field is the pace or the speed, or the selector is
  \<open>'pace-speed'\<close>.
\<close>

theorem recalculate_frame:
  "(s \<noteq> CF_time \<longrightarrow> time (recalculate d s f) = time d)
   \<and> (s \<noteq> CF_distance \<longrightarrow> distance (recalculate d s f) = distance d)
   \<and> (\<not> (f \<in> {Ch_pace, Ch_speed} \<or> s = CF_pace_speed) \<longrightarrow>
        pace (recalculate d s f) = pace d \<and> speed (recalculate d s f) = speed d)"
  by (cases s; cases f) (simp_all add: recalculate_def Let_def)

theorem recalculate_frame_witness:
  "CF_distance \<noteq> CF_time \<and> CF_time \<noteq> CF_distance
   \<and> \<not> (Ch_time \<in> {Ch_pace, Ch_speed} \<or> CF_distance = CF_pace_speed)
   \<and> time (recalculate \<lparr>pace = 6, speed = 10, distance = 8, time = 60\<rparr> CF_distance Ch_time) = 60
   \<and> pace (recalculate \<lparr>pace = 6, speed = 10, distance = 8, time = 60\<rparr> CF_distance Ch_time) = 6
   \<and> speed (recalculate \<lparr>pace = 6, speed = 10, distance = 8, time = 60\<rparr> CF_distance Ch_time) = 10
   \<and> distance (recalculate \<lparr>pace = 6, speed = 10, distance = 8, time = 60\<rparr> CF_time Ch_pace) = 8"
  using recalculate_frame
    [where s = CF_distance and f = Ch_time
       and d = "\<lparr>pace = 6, speed = 10, distance = 8, time = 60\<rparr>"]
    recalculate_frame
    [where s = CF_time and f = Ch_pace
       and d = "\<lparr>pace = 6, speed = 10, distance = 8, time = 60\<rparr>"]
  by simp

section \<open>Parsing times\<close>

text \<open>The facts that evaluate \<open>parseInt\<close> on a literal, and lists of two and three parts.\<close>

lemmas parse_eval = parseInt_def isWhiteSpace_def digitValue_def










section \<open>Formatting at the minute boundary\<close>

text \<open>
  Claim C9. There is an input within half a second below a whole minute, namely
  \<open>4 + 59.99 / 60\<close> minutes, for which \<open>formatPace\<close> writes the rounded seconds \<open>60\<close> in
  the seconds slot and leaves the minutes at \<open>04\<close>: the result is \<open>04:60\<close>, not \<open>05:00\<close>.
  \<open>formatTime\<close> does the same in its seconds slot: \<open>00:04:60\<close>.
\<close>

theorem format_seconds_60:
  "Math_floor (4 + 59.99 / 60) = 4
   \<and> Math_round ((4 + 59.99 / 60 - of_int (Math_floor (4 + 59.99 / 60))) * 60) = 60
   \<and> formatPace (4 + 59.99 / 60) = ''04:60''
   \<and> formatTime (4 + 59.99 / 60) = ''00:04:60''"
  by (simp add: formatPace_def formatTime_def Math_floor_def Math_round_def js_rem_def
      toString_def padStart_def natToString.simps)

section \<open>\<open>parseTime\<close> against \<open>parsePace\<close>\<close>

text \<open>
  Claim C10. \<open>parseTime\<close> does not check the range of its components, \<open>parsePace\<close>
  does. For a string of two numeric parts whose seconds are 60 or more, or negative,
  \<open>parseTime\<close> returns \<open>minutes + seconds / 60\<close> and \<open>parsePace\<close> returns \<open>0\<close>:
  \<open>'00:99'\<close> gives \<open>1.65\<close> and \<open>'5:-30'\<close> gives \<open>4.5\<close> with \<open>parseTime\<close>, and both give
  \<open>0\<close> with \<open>parsePace\<close>.
\<close>

theorem parseTime_no_range_check:
  "(split_on CHR '':'' s = [a, b] \<and> parseInt a = Some m \<and> parseInt b = Some sec
      \<and> (sec \<ge> 60 \<or> sec < 0) \<longrightarrow>
      parseTime s = of_int m + of_int sec / 60 \<and> parsePace s = 0)
   \<and> parseTime ''00:99'' = 1.65 \<and> parsePace ''00:99'' = 0
   \<and> parseTime ''5:-30'' = 4.5 \<and> parsePace ''5:-30'' = 0"
proof -
  have gen: "parseTime s = of_int m + of_int sec / 60 \<and> parsePace s = 0"
    if "split_on CHR '':'' s = [a, b]" "parseInt a = Some m" "parseInt b = Some sec"
      "sec \<ge> 60 \<or> sec < 0"
    using that by (auto simp: parseTime_def parsePace_def)
  have ex: "parseTime ''00:99'' = 1.65" "parsePace ''00:99'' = 0"
    "parseTime ''5:-30'' = 4.5" "parsePace ''5:-30'' = 0"
    by (simp_all add: parseTime_def parsePace_def parse_eval)
  from gen ex show ?thesis by blast
qed

theorem parseTime_no_range_check_witness:
  "parseTime ''12:75'' = 13.25 \<and> parsePace ''12:75'' = 0"
proof -
  have a: "split_on CHR '':'' ''12:75'' = [''12'', ''75'']"
    "parseInt ''12'' = Some 12" "parseInt ''75'' = Some 75" "(75::int) \<ge> 60"
    by (simp_all add: parse_eval)
  show ?thesis
    using a parseTime_no_range_check
      [where s = "''12:75''" and a = "''12''" and b = "''75''" and m = 12 and sec = 75]
    by simp
qed

section \<open>SegmentedTimeInput: a digit typed on a selected field\<close>

lemma formatNumbers_5: "formatNumbers False ''5'' = ''00:05''"
  by (simp add: formatNumbers_def padStart_def substring_def eval_nat_numeral)

lemma formatValue_5: "formatValue False ''00:05'' = ''00:05''"
  by (simp add: formatValue_def formatNumbers_def padStart_def substring_def isDigit_def)

lemma dispatch_5:
  "input_value el = ''00:05'' \<Longrightarrow> dispatchInputEvent False el = el"
  by (simp add: dispatchInputEvent_def SegmentedTimeInput_handleInput_def formatValue_5)

lemma set_value_then_caret:
  "setSelectionRange (Suc 0) (Suc 0) (set_value ''00:05'' el)
     = \<lparr>input_value = ''00:05'', selectionStart = 1, selectionEnd = 1\<rparr>"
  by (cases el) (auto simp add: set_value_def setSelectionRange_def Let_def)

text \<open>
  Claim C5, as stated: in the mask \<open>MM:SS\<close>, typing \<open>5\<close> while the whole content is
  selected displays \<open>05:00\<close>, with the caret at offset 1. The caret is where the claim
  says, the display is not: \<open>formatNumbers\<close> pads the digit on the left, so the field
  shows \<open>00:05\<close>.
\<close>

theorem handleDigitInput_selected_counterexample:
  "handleDigitInput False ''5'' \<lparr>input_value = ''12:34'', selectionStart = 0, selectionEnd = 5\<rparr>
     = \<lparr>input_value = ''00:05'', selectionStart = 1, selectionEnd = 1\<rparr>
   \<and> input_value (handleDigitInput False ''5''
         \<lparr>input_value = ''12:34'', selectionStart = 0, selectionEnd = 5\<rparr>) \<noteq> ''05:00''"
  by (simp add: handleDigitInput_def formatNumbers_5 set_value_then_caret dispatch_5)

text \<open>
  Claim C5, amended. In the mask \<open>MM:SS\<close>, typing \<open>5\<close> while the whole content of the
  field is selected displays \<open>00:05\<close>, the digit padded on the left with zeros to the
  four digits of the mask, with the caret at offset 1, after the first digit of the
  display.
\<close>

theorem handleDigitInput_selected:
  "selectionStart el = 0 \<and> selectionEnd el = length (input_value el) \<longrightarrow>
     handleDigitInput False ''5'' el
       = \<lparr>input_value = ''00:05'', selectionStart = 1, selectionEnd = 1\<rparr>"
proof (cases "input_value el = []")
  case True
  then show ?thesis
    by (simp add: handleDigitInput_def Let_def getDigitPosition_def substring_def
        getFormattedPosition_def formatNumbers_5 set_value_then_caret dispatch_5)
next
  case False
  then show ?thesis
    by (simp add: handleDigitInput_def Let_def formatNumbers_5 set_value_then_caret dispatch_5)
qed

theorem handleDigitInput_selected_witness:
  "handleDigitInput False ''5'' \<lparr>input_value = ''05:00'', selectionStart = 0, selectionEnd = 5\<rparr>
     = \<lparr>input_value = ''00:05'', selectionStart = 1, selectionEnd = 1\<rparr>"
  using handleDigitInput_selected
    [where el = "\<lparr>input_value = ''05:00'', selectionStart = 0, selectionEnd = 5\<rparr>"]
  by simp

section \<open>NumericInput: normalising the content\<close>

lemma split_on_not_Nil: "split_on c s \<noteq> []"
  by (induction s) (auto split: list.splits)

lemma split_on_no_sep: "p \<in> set (split_on c s) \<Longrightarrow> c \<notin> set p"
  by (induction s arbitrary: p) (auto split: list.splits if_splits)

lemma split_on_join:
  "s = hd (split_on c s) @ concat (map ((#) c) (tl (split_on c s)))"
  by (induction s) (auto split: list.splits simp: split_on_not_Nil)

lemma count_list_0: "c \<notin> set p \<Longrightarrow> count_list p c = 0"
  by (induction p) auto

lemma count_list_append: "count_list (xs @ ys) c = count_list xs c + count_list ys c"
  by (induction xs) auto

lemma count_list_concat_0: "(\<And>p. p \<in> set ps \<Longrightarrow> c \<notin> set p) \<Longrightarrow> count_list (concat ps) c = 0"
  by (induction ps) (auto simp: count_list_append count_list_0)

lemma fraction_no_dot: "CHR ''.'' \<notin> set a \<Longrightarrow> fraction (a @ CHR ''.'' # b) = b"
proof -
  assume "CHR ''.'' \<notin> set a"
  then have dw: "dropWhile (\<lambda>c. c \<noteq> CHR ''.'') (a @ CHR ''.'' # b) = CHR ''.'' # b"
    by (subst dropWhile_append2) auto
  show ?thesis unfolding fraction_def dw by simp
qed

lemma fraction_none: "CHR ''.'' \<notin> set a \<Longrightarrow> fraction a = []"
proof -
  assume "CHR ''.'' \<notin> set a"
  then have dw: "dropWhile (\<lambda>c. c \<noteq> CHR ''.'') a = []"
    by (auto simp add: dropWhile_eq_Nil_conv)
  show ?thesis unfolding fraction_def dw by simp
qed

text \<open>The content of the field after \<open>handleInput\<close>, in terms of the parts.\<close>

lemma handleInput_value:
  assumes "cl = filter (\<lambda>c. isDigit c \<or> c = CHR ''.'')
                  (replace_first CHR '','' ''.'' (input_value el))"
    and "parts = split_on CHR ''.'' cl"
  shows "input_value (NumericInput_handleInput n el) =
     (if length parts = 2 \<and> length (parts ! 1) > n
      then parts ! 0 @ ''.'' @ take n (parts ! 1)
      else if length parts > 2 then parts ! 0 @ ''.'' @ concat (drop 1 parts)
      else cl)"
  unfolding assms
  by (simp add: NumericInput_handleInput_def Let_def set_value_def setSelectionRange_def)

text \<open>What the parts of the cleaned content look like.\<close>

lemma parts_cases:
  assumes "parts = split_on CHR ''.'' cl"
  obtains (one) "parts = [cl]" "CHR ''.'' \<notin> set cl"
  | (two) p0 p1 where "parts = [p0, p1]" "cl = p0 @ CHR ''.'' # p1"
      "CHR ''.'' \<notin> set p0" "CHR ''.'' \<notin> set p1"
  | (many) p0 ps where "parts = p0 # ps" "length ps \<ge> 2"
      "CHR ''.'' \<notin> set p0" "\<And>p. p \<in> set ps \<Longrightarrow> CHR ''.'' \<notin> set p"
proof -
  have nodot: "CHR ''.'' \<notin> set p" if "p \<in> set parts" for p
    using that split_on_no_sep unfolding assms by fast
  have join: "cl = hd parts @ concat (map ((#) CHR ''.'') (tl parts))"
    unfolding assms by (rule split_on_join)
  obtain p0 ps where parts: "parts = p0 # ps"
    using split_on_not_Nil [of "CHR ''.''" cl] unfolding assms
    by (cases "split_on CHR ''.'' cl") auto
  show thesis
  proof (cases ps)
    case Nil
    with parts join nodot [of p0] show thesis by (intro one) auto
  next
    case (Cons p1 qs)
    show thesis
    proof (cases qs)
      case Nil
      with Cons parts join nodot [of p0] nodot [of p1] show thesis
        by (intro two [of p0 p1]) auto
    next
      case (Cons q qs')
      with \<open>ps = p1 # qs\<close> parts nodot show thesis
        by (intro many [of p0 ps]) auto
    qed
  qed
qed

text \<open>
  What \<open>handleInput\<close> does guarantee: the content it leaves has at most one period;
  and when the cleaned content has at most one period, its fractional part has at most
  \<open>maxDecimals\<close> digits.
\<close>

lemma NumericInput_one_period:
  "count_list (input_value (NumericInput_handleInput n el)) CHR ''.'' \<le> 1"
proof -
  define cl where "cl = filter (\<lambda>c. isDigit c \<or> c = CHR ''.'')
                         (replace_first CHR '','' ''.'' (input_value el))"
  define parts where "parts = split_on CHR ''.'' cl"
  note v = handleInput_value [OF cl_def parts_def, of n]
  from parts_def show ?thesis
  proof (cases rule: parts_cases)
    case one
    then show ?thesis by (simp add: v count_list_0)
  next
    case (two p0 p1)
    moreover have "CHR ''.'' \<notin> set (take n p1)"
      using two(4) by (meson in_set_takeD)
    ultimately show ?thesis by (simp add: v count_list_append count_list_0)
  next
    case (many p0 ps)
    then show ?thesis
      by (simp add: v count_list_append count_list_0 count_list_concat_0)
  qed
qed

lemma NumericInput_decimals_bounded:
  assumes "length (split_on CHR ''.'' (filter (\<lambda>c. isDigit c \<or> c = CHR ''.'')
                         (replace_first CHR '','' ''.'' (input_value el)))) \<le> 2"
  shows "length (fraction (input_value (NumericInput_handleInput n el))) \<le> n"
proof -
  define cl where "cl = filter (\<lambda>c. isDigit c \<or> c = CHR ''.'')
                         (replace_first CHR '','' ''.'' (input_value el))"
  define parts where "parts = split_on CHR ''.'' cl"
  note v = handleInput_value [OF cl_def parts_def, of n]
  have le: "length parts \<le> 2" using assms unfolding parts_def cl_def .
  from parts_def show ?thesis
  proof (cases rule: parts_cases)
    case one
    then show ?thesis by (simp add: v fraction_none)
  next
    case (two p0 p1)
    then show ?thesis by (simp add: v fraction_no_dot)
  next
    case (many p0 ps)
    with le show ?thesis by simp
  qed
qed

text \<open>
  Claim C6. For every content and every \<open>maxDecimals\<close>, the content that
  \<open>handleInput\<close> leaves has at most one period and a fractional part of at most
  \<open>maxDecimals\<close> digits; with two decimals, \<open>12.4567\<close> becomes \<open>12.45\<close>. The code
  truncates the fractional part only when the cleaned content splits into exactly two
  parts. A pasted content with several periods, \<open>1.2.3456\<close>, is collapsed to
  \<open>1.23456\<close> and keeps its five fractional digits; only a second run of the handler,
  on that result, cuts it to \<open>1.23\<close>.
\<close>

theorem NumericInput_handleInput_decimals:
  "NumericInput_handleInput 2 \<lparr>input_value = ''1.2.3456'', selectionStart = 8, selectionEnd = 8\<rparr>
     = \<lparr>input_value = ''1.23456'', selectionStart = 7, selectionEnd = 7\<rparr>
   \<and> fraction ''1.23456'' = ''23456''
   \<and> input_value (NumericInput_handleInput 2
         \<lparr>input_value = ''1.23456'', selectionStart = 7, selectionEnd = 7\<rparr>) = ''1.23''
   \<and> input_value (NumericInput_handleInput 2
         \<lparr>input_value = ''12.4567'', selectionStart = 7, selectionEnd = 7\<rparr>) = ''12.45''"
  by (simp add: NumericInput_handleInput_def isDigit_def set_value_def setSelectionRange_def
      fraction_def)

end
